theory Spec2Isabelle
  imports Main
begin

section \<open>The account workflow of the blog backend (controllers/authController.js)\<close>

text \<open>
  The four request handlers \<open>register\<close>, \<open>login\<close>, \<open>getMe\<close> and \<open>updateProfile\<close> are
  embedded as functions from an environment, a world and a request to a response and
  the world after the call. The world holds the stored user records and the log of the
  calls issued to the media host, in the order they were issued. The environment holds
  what the collaborators outside the controller decide: whether an upload, a delete, a
  query or a write fails, how a password is hashed and checked, which token is minted.
\<close>

subsection \<open>JavaScript values read by the handlers\<close>

text \<open>
  A field of \<open>req.body\<close> is a string or \<open>undefined\<close> (key absent): \<open>None\<close> is
  \<open>undefined\<close>. \<open>truthy\<close> is JavaScript's truth test on such a value, \<open>or_else\<close> is
  \<open>x || d\<close>, \<open>startsWith\<close> is \<open>String.prototype.startsWith\<close>.
\<close>

definition truthy :: "string option \<Rightarrow> bool" where
  "truthy x = (case x of None \<Rightarrow> False | Some s \<Rightarrow> s \<noteq> [])"

definition or_else :: "string option \<Rightarrow> string \<Rightarrow> string" where
  "or_else x d = (case x of None \<Rightarrow> d | Some s \<Rightarrow> if s \<noteq> [] then s else d)"

definition startsWith :: "string \<Rightarrow> string \<Rightarrow> bool" where
  "startsWith s p = (take (length p) s = p)"

text \<open>
  \<open>s.split(c)\<close> for a one-character separator: the pieces between the occurrences
  of \<open>c\<close>, so the result is never empty and \<open>"".split(c)\<close> is \<open>[""]\<close>.
\<close>

fun split :: "char \<Rightarrow> string \<Rightarrow> string list" where
  "split c [] = [[]]"
| "split c (x # xs) =
     (if x = c then [] # split c xs
      else (case split c xs of [] \<Rightarrow> [[x]] | y # ys \<Rightarrow> (x # y) # ys))"

text \<open>\<open>xs.slice(-n)\<close>: the last \<open>n\<close> elements, all of them when there are fewer.\<close>

definition slice_last :: "nat \<Rightarrow> 'a list \<Rightarrow> 'a list" where
  "slice_last n xs = drop (length xs - n) xs"

text \<open>\<open>xs.join(sep)\<close>.\<close>

fun join :: "string \<Rightarrow> string list \<Rightarrow> string" where
  "join sep [] = []"
| "join sep [x] = x"
| "join sep (x # y # ys) = x @ sep @ join sep (y # ys)"

text \<open>
  Lines 136 to 140 of \<open>updateProfile\<close>:
  \<open>user.avatar.split("/").slice(-2).join("/").split(".")[0]\<close>.
  Element 0 of an empty array would be \<open>undefined\<close>; \<open>split\<close> never returns one.
\<close>

definition oldPublicId :: "string \<Rightarrow> string" where
  "oldPublicId avatar =
     (case split CHR ''.'' (join ''/'' (slice_last 2 (split CHR ''/'' avatar))) of
        [] \<Rightarrow> []
      | x # _ \<Rightarrow> x)"

subsection \<open>Data model\<close>

text \<open>A stored user record; \<open>password\<close> is the stored hash.\<close>

record user =
  uid :: nat
  name :: string
  email :: string
  password :: string
  bio :: string
  avatar :: string
  createdAt :: nat

text \<open>
  A document loaded from the store, as the handler holds and mutates it in memory.
  \<open>d_password\<close> is \<open>None\<close> when the query did not select the password field;
  \<open>d_password_modified\<close> records an assignment to \<open>user.password\<close>.
\<close>

record doc =
  d_id :: nat
  d_name :: string
  d_email :: string
  d_password :: "string option"
  d_password_modified :: bool
  d_bio :: string
  d_avatar :: string
  d_createdAt :: nat

type_synonym buffer = "nat list"

datatype exn =
  TypeError string
| Thrown string

datatype media_call =
  Upload buffer string
| Delete string

record world =
  users :: "user list"
  media_log :: "media_call list"

datatype field_value =
  Id nat
| Str string
| Date nat

type_synonym view = "(string \<times> field_value) list"

text \<open>
  What a handler does with its request: \<open>ApiResponse.success(res, code, message, data)\<close>,
  \<open>ApiResponse.error(res, code, message)\<close>, or \<open>next(error)\<close>, which hands the caught
  exception to the centralized error handler.
\<close>

datatype response =
  ApiSuccess nat string view
| ApiError nat string
| Next exn

record request =
  body_name :: "string option"
  body_email :: "string option"
  body_password :: "string option"
  body_bio :: "string option"
  req_file :: "buffer option"
  user_id :: nat

subsection \<open>Collaborators\<close>

text \<open>
  The modules \<open>models/User.js\<close>, \<open>utils/cloudinary.js\<close> and \<open>utils/generateToken.js\<close>
  are imported by the controller and are not among the sources. What they decide is a
  parameter of the model:
  \<^item> \<open>upload_outcome buf folder\<close>: the URL an upload returns, or the exception it throws;
  \<^item> \<open>delete_outcome ident\<close>: the exception a delete throws, if any;
  \<^item> \<open>find_fault\<close>: the exception a query throws, if any;
  \<^item> \<open>create_fault\<close>, \<open>save_fault\<close>: the exception schema validation or the driver
    throws for a record to be written, if any;
  \<^item> \<open>hash\<close>, \<open>matchPassword\<close>: password hashing on write, and the check of an entered
    password against a stored hash;
  \<^item> \<open>password_selected\<close>: whether a query without an explicit selection loads the
    password field;
  \<^item> \<open>generateToken\<close>, \<open>new_id\<close>, \<open>now\<close>: the token minted for a user identifier, the
    identifier and the timestamp given to a new record.
\<close>

record env =
  upload_outcome :: "buffer \<Rightarrow> string \<Rightarrow> exn + string"
  delete_outcome :: "string \<Rightarrow> exn option"
  find_fault :: "exn option"
  create_fault :: "user \<Rightarrow> exn option"
  save_fault :: "user \<Rightarrow> exn option"
  hash :: "string \<Rightarrow> string"
  matchPassword :: "string \<Rightarrow> string \<Rightarrow> bool"
  password_selected :: bool
  generateToken :: "nat \<Rightarrow> string"
  new_id :: nat
  now :: nat

text \<open>
  Modelled from the spec: the Media Store Adapter (\<open>utils/cloudinary.js\<close>).
  \<open>upload(buffer, namespace)\<close> returns a URL or fails, \<open>delete(identifier)\<close> returns
  nothing or fails. Each call is appended to the log, whatever its outcome.
\<close>

definition uploadToCloudinary ::
    "env \<Rightarrow> world \<Rightarrow> buffer \<Rightarrow> string \<Rightarrow> (exn + string) \<times> world" where
  "uploadToCloudinary en w buf folder =
     (upload_outcome en buf folder, w\<lparr>media_log := media_log w @ [Upload buf folder]\<rparr>)"

definition deleteFromCloudinary :: "env \<Rightarrow> world \<Rightarrow> string \<Rightarrow> exn option \<times> world" where
  "deleteFromCloudinary en w ident =
     (delete_outcome en ident, w\<lparr>media_log := media_log w @ [Delete ident]\<rparr>)"

text \<open>
  Modelled from the spec: the User Repository (\<open>models/User.js\<close>): find-by-email,
  find-by-id, create and save. A loaded document carries the password hash when the
  query selects it. The password is hashed when a record is created and when a saved
  document has its password modified.
\<close>

definition load :: "bool \<Rightarrow> user \<Rightarrow> doc" where
  "load with_password u =
     \<lparr>d_id = uid u, d_name = name u, d_email = email u,
      d_password = (if with_password then Some (password u) else None),
      d_password_modified = False,
      d_bio = bio u, d_avatar = avatar u, d_createdAt = createdAt u\<rparr>"

definition findOne :: "env \<Rightarrow> world \<Rightarrow> string \<Rightarrow> bool \<Rightarrow> exn + doc option" where
  "findOne en w e with_password =
     (case find_fault en of
        Some x \<Rightarrow> Inl x
      | None \<Rightarrow> Inr (map_option (load with_password) (find (\<lambda>u. email u = e) (users w))))"

definition findById :: "env \<Rightarrow> world \<Rightarrow> nat \<Rightarrow> exn + doc option" where
  "findById en w i =
     (case find_fault en of
        Some x \<Rightarrow> Inl x
      | None \<Rightarrow>
          Inr (map_option (load (password_selected en)) (find (\<lambda>u. uid u = i) (users w))))"

definition create ::
    "env \<Rightarrow> world \<Rightarrow> string \<Rightarrow> string \<Rightarrow> string \<Rightarrow> string \<Rightarrow> string \<Rightarrow> (exn + doc) \<times> world" where
  "create en w n e p b a =
     (let u = \<lparr>uid = new_id en, name = n, email = e, password = hash en p,
                bio = b, avatar = a, createdAt = now en\<rparr>
      in case create_fault en u of
           Some x \<Rightarrow> (Inl x, w)
         | None \<Rightarrow> (Inr (load True u), w\<lparr>users := users w @ [u]\<rparr>))"

definition store :: "env \<Rightarrow> doc \<Rightarrow> user \<Rightarrow> user" where
  "store en d u =
     u\<lparr>name := d_name d, bio := d_bio d, avatar := d_avatar d,
       password := (case d_password d of
                      Some p \<Rightarrow> if d_password_modified d then hash en p else password u
                    | None \<Rightarrow> password u)\<rparr>"

definition save :: "env \<Rightarrow> world \<Rightarrow> doc \<Rightarrow> (exn + doc) \<times> world" where
  "save en w d =
     (case find (\<lambda>u. uid u = d_id d) (users w) of
        None \<Rightarrow> (Inl (Thrown ''DocumentNotFoundError''), w)
      | Some u \<Rightarrow>
          (case save_fault en (store en d u) of
             Some x \<Rightarrow> (Inl x, w)
           | None \<Rightarrow>
               (Inr (d\<lparr>d_password := (if d_password_modified d
                                        then map_option (hash en) (d_password d)
                                        else d_password d),
                       d_password_modified := False\<rparr>),
                w\<lparr>users := map (\<lambda>v. if uid v = d_id d then store en d v else v) (users w)\<rparr>)))"

text \<open>
  Modelled from the spec: the password-verification method on the loaded instance
  (\<open>models/User.js\<close>). \<open>user.matchPassword(entered)\<close> compares the entered password
  with the hash the document carries; without a loaded hash the comparison throws.
\<close>

definition doc_matchPassword :: "env \<Rightarrow> doc \<Rightarrow> string \<Rightarrow> exn + bool" where
  "doc_matchPassword en d entered =
     (case d_password d of
        None \<Rightarrow> Inl (Thrown ''Illegal arguments'')
      | Some h \<Rightarrow> Inr (matchPassword en entered h))"

subsection \<open>register (lines 13 to 64)\<close>

text \<open>
  Lines 29 to 36: the avatar URL is the empty string unless a file came with the
  request, in which case it is uploaded into the folder \<open>avatars\<close>.
\<close>

definition register_avatar :: "env \<Rightarrow> world \<Rightarrow> request \<Rightarrow> (exn + string) \<times> world" where
  "register_avatar en w req =
     (case req_file req of
        None \<Rightarrow> (Inr [], w)
      | Some buf \<Rightarrow> uploadToCloudinary en w buf ''avatars'')"

text \<open>
  \<open>User.create\<close> resolves to the created document, which is truthy, so the
  \<open>Invalid user data\<close> branch of line 59 is never taken.
\<close>

definition register :: "env \<Rightarrow> world \<Rightarrow> request \<Rightarrow> response \<times> world" where
  "register en w req =
     (if \<not> truthy (body_name req) \<or> \<not> truthy (body_email req) \<or> \<not> truthy (body_password req)
      then (ApiError 400 ''Please provide all required fields'', w)
      else
        (case findOne en w (or_else (body_email req) []) (password_selected en) of
           Inl x \<Rightarrow> (Next x, w)
         | Inr (Some userExists) \<Rightarrow> (ApiError 400 ''User already exists'', w)
         | Inr None \<Rightarrow>
             (case register_avatar en w req of
                (Inl x, w1) \<Rightarrow> (Next x, w1)
              | (Inr avatarUrl, w1) \<Rightarrow>
                  (case create en w1 (or_else (body_name req) []) (or_else (body_email req) [])
                          (or_else (body_password req) []) (or_else (body_bio req) []) avatarUrl of
                     (Inl x, w2) \<Rightarrow> (Next x, w2)
                   | (Inr user, w2) \<Rightarrow>
                       (ApiSuccess 201 ''User registered successfully''
                          [(''_id'', Id (d_id user)),
                           (''name'', Str (d_name user)),
                           (''email'', Str (d_email user)),
                           (''bio'', Str (d_bio user)),
                           (''avatar'', Str (d_avatar user)),
                           (''token'', Str (generateToken en (d_id user)))],
                        w2)))))"

subsection \<open>login (lines 69 to 98)\<close>

text \<open>
  Line 81, \<open>user && (await user.matchPassword(password))\<close>: the document when it
  exists and the password verifies, nothing otherwise; the check is not run when no
  document was found.
\<close>

definition verified :: "env \<Rightarrow> doc option \<Rightarrow> string \<Rightarrow> exn + doc option" where
  "verified en user entered =
     (case user of
        None \<Rightarrow> Inr None
      | Some d \<Rightarrow>
          (case doc_matchPassword en d entered of
             Inl x \<Rightarrow> Inl x
           | Inr ok \<Rightarrow> Inr (if ok then Some d else None)))"

definition login :: "env \<Rightarrow> world \<Rightarrow> request \<Rightarrow> response \<times> world" where
  "login en w req =
     (if \<not> truthy (body_email req) \<or> \<not> truthy (body_password req)
      then (ApiError 400 ''Please provide email and password'', w)
      else
        (case findOne en w (or_else (body_email req) []) True of
           Inl x \<Rightarrow> (Next x, w)
         | Inr found \<Rightarrow>
             (case verified en found (or_else (body_password req) []) of
                Inl x \<Rightarrow> (Next x, w)
              | Inr (Some user) \<Rightarrow>
                  (ApiSuccess 200 ''Login successful''
                     [(''_id'', Id (d_id user)),
                      (''name'', Str (d_name user)),
                      (''email'', Str (d_email user)),
                      (''bio'', Str (d_bio user)),
                      (''avatar'', Str (d_avatar user)),
                      (''token'', Str (generateToken en (d_id user)))],
                   w)
              | Inr None \<Rightarrow> (ApiError 401 ''Invalid email or password'', w))))"

subsection \<open>getMe (lines 103 to 118)\<close>

text \<open>
  The result of \<open>findById\<close> is used without a check: reading \<open>user._id\<close> of \<open>null\<close>
  throws a TypeError, which the \<open>catch\<close> of line 115 passes to \<open>next\<close>.
\<close>

definition getMe :: "env \<Rightarrow> world \<Rightarrow> request \<Rightarrow> response \<times> world" where
  "getMe en w req =
     (case findById en w (user_id req) of
        Inl x \<Rightarrow> (Next x, w)
      | Inr None \<Rightarrow> (Next (TypeError ''Cannot read properties of null''), w)
      | Inr (Some user) \<Rightarrow>
          (ApiSuccess 200 ''User profile retrieved''
             [(''_id'', Id (d_id user)),
              (''name'', Str (d_name user)),
              (''email'', Str (d_email user)),
              (''bio'', Str (d_bio user)),
              (''avatar'', Str (d_avatar user)),
              (''createdAt'', Date (d_createdAt user))],
           w))"

subsection \<open>updateProfile (lines 123 to 175)\<close>

text \<open>
  Lines 128 and 129: \<open>user.name = req.body.name || user.name\<close> and
  \<open>user.bio = req.body.bio !== undefined ? req.body.bio : user.bio\<close>.
\<close>

definition assign_name_bio :: "request \<Rightarrow> doc \<Rightarrow> doc" where
  "assign_name_bio req user =
     user\<lparr>d_name := or_else (body_name req) (d_name user),
          d_bio := (case body_bio req of Some b \<Rightarrow> b | None \<Rightarrow> d_bio user)\<rparr>"

text \<open>
  Lines 134 to 145: the old avatar is deleted from the media host when it is not empty
  and does not start with \<open>http\<close>. The \<open>catch\<close> of line 142 is empty, so the handler
  goes on from the same point whether the delete threw or not.
\<close>

definition delete_old_avatar :: "env \<Rightarrow> world \<Rightarrow> doc \<Rightarrow> world" where
  "delete_old_avatar en w user =
     (if d_avatar user \<noteq> [] \<and> \<not> startsWith (d_avatar user) ''http''
      then (case deleteFromCloudinary en w (oldPublicId (d_avatar user)) of
              (Some err, w1) \<Rightarrow> w1
            | (None, w1) \<Rightarrow> w1)
      else w)"

text \<open>Lines 132 to 153: with a file, the cleanup, then the upload and the new URL.\<close>

definition replace_avatar :: "env \<Rightarrow> world \<Rightarrow> request \<Rightarrow> doc \<Rightarrow> (exn + doc) \<times> world" where
  "replace_avatar en w req user =
     (case req_file req of
        None \<Rightarrow> (Inr user, w)
      | Some buf \<Rightarrow>
          (case uploadToCloudinary en (delete_old_avatar en w user) buf ''avatars'' of
             (Inl x, w2) \<Rightarrow> (Inl x, w2)
           | (Inr url, w2) \<Rightarrow> (Inr (user\<lparr>d_avatar := url\<rparr>), w2)))"

text \<open>Lines 156 to 158: the password is assigned only when the body carries one.\<close>

definition assign_password :: "request \<Rightarrow> doc \<Rightarrow> doc" where
  "assign_password req user =
     (if truthy (body_password req)
      then user\<lparr>d_password := body_password req, d_password_modified := True\<rparr>
      else user)"

definition updateProfile :: "env \<Rightarrow> world \<Rightarrow> request \<Rightarrow> response \<times> world" where
  "updateProfile en w req =
     (case findById en w (user_id req) of
        Inl x \<Rightarrow> (Next x, w)
      | Inr None \<Rightarrow> (ApiError 404 ''User not found'', w)
      | Inr (Some user0) \<Rightarrow>
          (case replace_avatar en w req (assign_name_bio req user0) of
             (Inl x, w1) \<Rightarrow> (Next x, w1)
           | (Inr user3, w1) \<Rightarrow>
               (case save en w1 (assign_password req user3) of
                  (Inl x, w2) \<Rightarrow> (Next x, w2)
                | (Inr updatedUser, w2) \<Rightarrow>
                    (ApiSuccess 200 ''Profile updated successfully''
                       [(''_id'', Id (d_id updatedUser)),
                        (''name'', Str (d_name updatedUser)),
                        (''email'', Str (d_email updatedUser)),
                        (''bio'', Str (d_bio updatedUser)),
                        (''avatar'', Str (d_avatar updatedUser))],
                     w2))))"

subsection \<open>The storage identifier as the specification words it\<close>

text \<open>
  The specification derives the identifier of the old avatar from the trailing two
  path segments of the stored string with the file-extension suffix stripped. The
  extension of a path is what follows the last \<open>.\<close> of its last segment, the \<open>.\<close>
  included; a path whose last segment has no \<open>.\<close> has none.
\<close>

definition strip_extension :: "string \<Rightarrow> string" where
  "strip_extension p =
     (let r = rev p
      in if CHR ''.'' \<in> set r \<and> CHR ''/'' \<notin> set (takeWhile (\<lambda>c. c \<noteq> CHR ''.'') r)
         then rev (tl (dropWhile (\<lambda>c. c \<noteq> CHR ''.'') r))
         else p)"

definition publicId_spec :: "string \<Rightarrow> string" where
  "publicId_spec a = strip_extension (join ''/'' (slice_last 2 (split CHR ''/'' a)))"

subsection \<open>A concrete environment, store and request\<close>

text \<open>
  An environment in which every collaborator succeeds, a store holding one user whose
  avatar is a relative path, and a request with an empty body sent by that user.
\<close>

definition env0 :: env where
  "env0 =
     \<lparr>upload_outcome = (\<lambda>buf folder. Inr (''https://media.example/'' @ folder @ ''/new.png'')),
      delete_outcome = (\<lambda>ident. None),
      find_fault = None,
      create_fault = (\<lambda>u. None),
      save_fault = (\<lambda>u. None),
      hash = (\<lambda>p. ''#'' @ p),
      matchPassword = (\<lambda>p h. h = ''#'' @ p),
      password_selected = False,
      generateToken = (\<lambda>i. ''token''),
      new_id = 7,
      now = 100\<rparr>"

definition alice :: user where
  "alice = \<lparr>uid = 1, name = ''Alice'', email = ''alice@example.org'', password = ''#secret'',
            bio = ''hello'', avatar = ''avatars/old.photo.png'', createdAt = 5\<rparr>"

definition w0 :: world where
  "w0 = \<lparr>users = [alice], media_log = []\<rparr>"

definition req0 :: request where
  "req0 = \<lparr>body_name = None, body_email = None, body_password = None, body_bio = None,
           req_file = None, user_id = 1\<rparr>"

section \<open>Properties\<close>

subsection \<open>Auxiliary facts\<close>

lemma split_first: "(case split c s of [] \<Rightarrow> [] | x # _ \<Rightarrow> x) = takeWhile (\<lambda>x. x \<noteq> c) s"
  by (induction s) (auto split: list.splits)

lemma oldPublicId_takeWhile:
  "oldPublicId a = takeWhile (\<lambda>x. x \<noteq> CHR ''.'') (join ''/'' (slice_last 2 (split CHR ''/'' a)))"
  unfolding oldPublicId_def by (rule split_first)

lemma findById_found:
  assumes "find_fault en = None" and "find (\<lambda>x. uid x = i) (users w) = Some u"
  shows "findById en w i = Inr (Some (load (password_selected en) u))"
  using assms by (simp add: findById_def)

lemma findById_absent:
  assumes "find_fault en = None" and "find (\<lambda>x. uid x = i) (users w) = None"
  shows "findById en w i = Inr None"
  using assms by (simp add: findById_def)

lemma delete_old_avatar_users: "users (delete_old_avatar en w d) = users w"
  by (simp add: delete_old_avatar_def deleteFromCloudinary_def split: option.splits)

lemma delete_old_avatar_log:
  "media_log (delete_old_avatar en w d) =
     media_log w @ (if d_avatar d \<noteq> [] \<and> \<not> startsWith (d_avatar d) ''http''
                    then [Delete (oldPublicId (d_avatar d))] else [])"
  by (simp add: delete_old_avatar_def deleteFromCloudinary_def split: option.splits)

lemma replace_avatar_users: "users (snd (replace_avatar en w req d)) = users w"
  by (simp add: replace_avatar_def uploadToCloudinary_def delete_old_avatar_users
           split: option.splits sum.splits)

lemma replace_avatar_log:
  "media_log (snd (replace_avatar en w req d)) =
     (case req_file req of
        None \<Rightarrow> media_log w
      | Some buf \<Rightarrow> media_log (delete_old_avatar en w d) @ [Upload buf ''avatars''])"
  by (simp add: replace_avatar_def uploadToCloudinary_def split: option.splits sum.splits)

lemma replace_avatar_result:
  "fst (replace_avatar en w req d) =
     (case req_file req of
        None \<Rightarrow> Inr d
      | Some buf \<Rightarrow>
          (case upload_outcome en buf ''avatars'' of
             Inl x \<Rightarrow> Inl x
           | Inr url \<Rightarrow> Inr (d\<lparr>d_avatar := url\<rparr>)))"
  by (simp add: replace_avatar_def uploadToCloudinary_def split: option.splits sum.splits)

lemma save_log: "media_log (snd (save en w d)) = media_log w"
  by (simp add: save_def split: option.splits)

lemma updateProfile_log:
  assumes "findById en w (user_id req) = Inr (Some d)"
  shows "media_log (snd (updateProfile en w req)) =
           (case req_file req of
              None \<Rightarrow> media_log w
            | Some buf \<Rightarrow> media_log (delete_old_avatar en w d) @ [Upload buf ''avatars''])"
proof -
  let ?d2 = "assign_name_bio req d"
  obtain r w1 where ra: "replace_avatar en w req ?d2 = (r, w1)"
    by (cases "replace_avatar en w req ?d2")
  have same: "delete_old_avatar en w ?d2 = delete_old_avatar en w d"
    by (simp add: delete_old_avatar_def assign_name_bio_def)
  have log1: "media_log w1 =
     (case req_file req of
        None \<Rightarrow> media_log w
      | Some buf \<Rightarrow> media_log (delete_old_avatar en w d) @ [Upload buf ''avatars''])"
    using replace_avatar_log [of en w req ?d2] ra same by (simp split: option.splits)
  show ?thesis
  proof (cases r)
    case (Inl x)
    then show ?thesis using assms ra log1 by (simp add: updateProfile_def)
  next
    case (Inr d3)
    obtain r2 w2 where sv: "save en w1 (assign_password req d3) = (r2, w2)"
      by (cases "save en w1 (assign_password req d3)")
    have "media_log w2 = media_log w1"
      using save_log [of en w1 "assign_password req d3"] sv by simp
    then show ?thesis using assms ra Inr sv log1
      by (cases r2) (simp_all add: updateProfile_def)
  qed
qed

lemma find_uid: "find (\<lambda>x. uid x = i) xs = Some u \<Longrightarrow> uid u = i"
  by (induction xs) (auto split: if_splits)

lemma find_map_store:
  assumes "find (\<lambda>x. uid x = i) xs = Some u"
  shows "find (\<lambda>x. uid x = i) (map (\<lambda>v. if uid v = i then store en d v else v) xs)
           = Some (store en d u)"
  using assms by (induction xs) (auto simp: store_def split: if_splits)

lemma save_users:
  assumes "find (\<lambda>x. uid x = d_id d) (users w) = Some u"
    and "save_fault en (store en d u) = None"
  shows "fst (save en w d) =
           Inr (d\<lparr>d_password := (if d_password_modified d
                                   then map_option (hash en) (d_password d)
                                   else d_password d),
                  d_password_modified := False\<rparr>)"
    and "find (\<lambda>x. uid x = d_id d) (users (snd (save en w d))) = Some (store en d u)"
    and "media_log (snd (save en w d)) = media_log w"
  using assms by (simp_all add: save_def find_map_store)

lemma delete_old_avatar_outcome:
  "delete_old_avatar (en\<lparr>delete_outcome := dl\<rparr>) w d = delete_old_avatar en w d"
  by (simp add: delete_old_avatar_def deleteFromCloudinary_def split: option.splits)

lemma replace_avatar_outcome:
  "replace_avatar (en\<lparr>delete_outcome := dl\<rparr>) w req d = replace_avatar en w req d"
  by (simp add: replace_avatar_def delete_old_avatar_outcome uploadToCloudinary_def
        split: option.splits)

lemma store_outcome: "store (en\<lparr>delete_outcome := dl\<rparr>) d u = store en d u"
  by (simp add: store_def cong: option.case_cong if_cong)

lemma save_outcome: "save (en\<lparr>delete_outcome := dl\<rparr>) w d = save en w d"
  by (simp add: save_def store_outcome cong: option.case_cong if_cong)

lemma findById_outcome: "findById (en\<lparr>delete_outcome := dl\<rparr>) w i = findById en w i"
  by (simp add: findById_def split: option.splits)

lemma delete_outcome_irrelevant:
  "updateProfile (en\<lparr>delete_outcome := dl\<rparr>) w req = updateProfile en w req"
  unfolding updateProfile_def findById_outcome replace_avatar_outcome save_outcome ..

lemma updateProfile_found:
  assumes "findById en w (user_id req) = Inr (Some d0)"
  shows "updateProfile en w req =
     (case fst (replace_avatar en w req (assign_name_bio req d0)) of
        Inl x \<Rightarrow> (Next x, snd (replace_avatar en w req (assign_name_bio req d0)))
      | Inr d3 \<Rightarrow>
          (case fst (save en (snd (replace_avatar en w req (assign_name_bio req d0)))
                       (assign_password req d3)) of
             Inl x \<Rightarrow> (Next x, snd (save en (snd (replace_avatar en w req (assign_name_bio req d0)))
                                      (assign_password req d3)))
           | Inr d4 \<Rightarrow>
               (ApiSuccess 200 ''Profile updated successfully''
                  [(''_id'', Id (d_id d4)),
                   (''name'', Str (d_name d4)),
                   (''email'', Str (d_email d4)),
                   (''bio'', Str (d_bio d4)),
                   (''avatar'', Str (d_avatar d4))],
                snd (save en (snd (replace_avatar en w req (assign_name_bio req d0)))
                       (assign_password req d3)))))"
  using assms by (simp add: updateProfile_def split: prod.splits sum.splits)

lemma replace_avatar_keeps:
  assumes "fst (replace_avatar en w req d) = Inr d3"
  shows "d_id d3 = d_id d" and "d_name d3 = d_name d" and "d_bio d3 = d_bio d"
    and "d_password d3 = d_password d" and "d_password_modified d3 = d_password_modified d"
  using assms by (auto simp: replace_avatar_result split: option.splits sum.splits)

lemma save_success_find:
  assumes "fst (save en w d) = Inr d'"
    and "find (\<lambda>x. uid x = d_id d) (users w) = Some u"
  shows "find (\<lambda>x. uid x = d_id d) (users (snd (save en w d))) = Some (store en d u)"
  using assms by (auto simp: save_def find_map_store split: option.splits)

lemma takeWhile_absent: "x \<notin> set a \<Longrightarrow> takeWhile (\<lambda>c. c \<noteq> x) (a @ x # b) = a"
  by (induction a) auto

lemma dropWhile_absent: "x \<notin> set a \<Longrightarrow> dropWhile (\<lambda>c. c \<noteq> x) (a @ x # b) = x # b"
  by (induction a) auto

lemma takeWhile_all_absent: "x \<notin> set s \<Longrightarrow> takeWhile (\<lambda>c. c \<noteq> x) s = s"
  by (induction s) auto

lemma set_tl_member: "y \<in> set (tl xs) \<Longrightarrow> y \<in> set xs"
  by (cases xs) simp_all

lemma takeWhile_single_dot:
  assumes "length (filter (\<lambda>c. c = x) s) \<le> 1" and "x \<in> set s"
  shows "rev (tl (dropWhile (\<lambda>c. c \<noteq> x) (rev s))) = takeWhile (\<lambda>c. c \<noteq> x) s"
    and "takeWhile (\<lambda>c. c \<noteq> x) (rev s) = rev (tl (dropWhile (\<lambda>c. c \<noteq> x) s))"
proof -
  obtain a b where s: "s = a @ x # b" and a: "x \<notin> set a"
    using assms(2) by (auto dest: split_list_first)
  have "filter (\<lambda>c. c = x) b = []"
    using assms(1) s by simp
  then have b: "x \<notin> set b"
    by (auto simp: filter_empty_conv)
  have r: "rev s = rev b @ x # rev a" using s by simp
  have t1: "takeWhile (\<lambda>c. c \<noteq> x) s = a"
    unfolding s using a by (rule takeWhile_absent)
  have d1: "dropWhile (\<lambda>c. c \<noteq> x) s = x # b"
    unfolding s using a by (rule dropWhile_absent)
  have t2: "takeWhile (\<lambda>c. c \<noteq> x) (rev s) = rev b"
    unfolding r using b by (simp add: takeWhile_absent)
  have d2: "dropWhile (\<lambda>c. c \<noteq> x) (rev s) = x # rev a"
    unfolding r using b by (simp add: dropWhile_absent)
  show "rev (tl (dropWhile (\<lambda>c. c \<noteq> x) (rev s))) = takeWhile (\<lambda>c. c \<noteq> x) s"
    by (simp add: d2 t1)
  show "takeWhile (\<lambda>c. c \<noteq> x) (rev s) = rev (tl (dropWhile (\<lambda>c. c \<noteq> x) s))"
    by (simp add: t2 d1)
qed

lemma strip_extension_single_dot:
  assumes "length (filter (\<lambda>c. c = CHR ''.'') s) \<le> 1"
    and "CHR ''/'' \<notin> set (dropWhile (\<lambda>c. c \<noteq> CHR ''.'') s)"
  shows "strip_extension s = takeWhile (\<lambda>c. c \<noteq> CHR ''.'') s"
proof (cases "CHR ''.'' \<in> set s")
  case False
  then show ?thesis by (simp add: strip_extension_def takeWhile_all_absent)
next
  case True
  note f = takeWhile_single_dot [OF assms(1) True]
  have "CHR ''/'' \<notin> set (tl (dropWhile (\<lambda>c. c \<noteq> CHR ''.'') s))"
    using assms(2) by (blast dest: set_tl_member)
  then have "CHR ''/'' \<notin> set (takeWhile (\<lambda>c. c \<noteq> CHR ''.'') (rev s))"
    by (simp add: f(2))
  then show ?thesis using True f(1) by (simp add: strip_extension_def Let_def)
qed

subsection \<open>Claims\<close>

text \<open>
  C1. When \<open>updateProfile\<close> is called with a new avatar file and the upload of that
  file fails, the handler forwards the upload error and the stored user records are
  what they were before the call, whatever name, bio and password the request carries:
  the save runs only after a successful upload.
\<close>

theorem updateProfile_upload_failure_aborts:
  assumes "find_fault en = None"
    and "find (\<lambda>x. uid x = user_id req) (users w) = Some u"
    and "req_file req = Some buf"
    and "upload_outcome en buf ''avatars'' = Inl x"
  shows "fst (updateProfile en w req) = Next x
         \<and> users (snd (updateProfile en w req)) = users w"
proof -
  let ?d = "assign_name_bio req (load (password_selected en) u)"
  have found: "findById en w (user_id req) = Inr (Some (load (password_selected en) u))"
    using assms(1,2) by (rule findById_found)
  have res: "fst (replace_avatar en w req ?d) = Inl x"
    using assms(3,4) by (simp add: replace_avatar_result)
  have usr: "users (snd (replace_avatar en w req ?d)) = users w"
    by (rule replace_avatar_users)
  obtain r w1 where ra: "replace_avatar en w req ?d = (r, w1)"
    by (cases "replace_avatar en w req ?d")
  with res usr have "r = Inl x" and "users w1 = users w" by simp_all
  with found ra show ?thesis by (simp add: updateProfile_def)
qed

theorem updateProfile_upload_failure_aborts_witness:
  "fst (updateProfile (env0\<lparr>upload_outcome := (\<lambda>b f. Inl (Thrown ''upload failed''))\<rparr>) w0
          (req0\<lparr>body_name := Some ''Bob'', body_bio := Some ''new bio'',
                body_password := Some ''changed'', req_file := Some [1, 2, 3]\<rparr>))
     = Next (Thrown ''upload failed'')
   \<and> users (snd (updateProfile (env0\<lparr>upload_outcome := (\<lambda>b f. Inl (Thrown ''upload failed''))\<rparr>) w0
          (req0\<lparr>body_name := Some ''Bob'', body_bio := Some ''new bio'',
                body_password := Some ''changed'', req_file := Some [1, 2, 3]\<rparr>)))
     = [alice]"
  using updateProfile_upload_failure_aborts
    [of "env0\<lparr>upload_outcome := (\<lambda>b f. Inl (Thrown ''upload failed''))\<rparr>"
        "req0\<lparr>body_name := Some ''Bob'', body_bio := Some ''new bio'',
              body_password := Some ''changed'', req_file := Some [1, 2, 3]\<rparr>"
        w0 alice "[1, 2, 3]" "Thrown ''upload failed''"]
  by (simp add: env0_def req0_def w0_def alice_def)

text \<open>
  C2. When \<open>updateProfile\<close> is called with a new avatar file, the calls it issues to
  the media host are: one delete, when the stored avatar is not empty and does not
  start with \<open>http\<close>, and none otherwise; then one upload into \<open>avatars\<close>.
\<close>

theorem updateProfile_media_calls:
  assumes "find_fault en = None"
    and "find (\<lambda>x. uid x = user_id req) (users w) = Some u"
    and "req_file req = Some buf"
  shows "media_log (snd (updateProfile en w req)) =
           media_log w
           @ (if avatar u \<noteq> [] \<and> \<not> startsWith (avatar u) ''http''
              then [Delete (oldPublicId (avatar u))] else [])
           @ [Upload buf ''avatars'']"
proof -
  have found: "findById en w (user_id req) = Inr (Some (load (password_selected en) u))"
    using assms(1,2) by (rule findById_found)
  have av: "d_avatar (load (password_selected en) u) = avatar u"
    by (simp add: load_def)
  show ?thesis
    using updateProfile_log [OF found] assms(3)
    by (simp add: delete_old_avatar_log av)
qed

theorem updateProfile_media_calls_witness:
  "media_log (snd (updateProfile env0 w0 (req0\<lparr>req_file := Some [1, 2, 3]\<rparr>))) =
     [Delete ''avatars/old'', Upload [1, 2, 3] ''avatars'']"
  using updateProfile_media_calls [of env0 "req0\<lparr>req_file := Some [1, 2, 3]\<rparr>" w0 alice "[1, 2, 3]"]
  by (simp add: env0_def req0_def w0_def alice_def startsWith_def oldPublicId_def slice_last_def)

text \<open>
  C3. When the delete of the old avatar fails, \<open>updateProfile\<close> goes on to the
  upload; with a successful upload and save it answers 200 and the stored avatar is the
  new URL. The outcome of the delete never changes what \<open>updateProfile\<close> returns: the
  result is the one of the same call with a delete that succeeds.
\<close>

theorem updateProfile_delete_failure_swallowed:
  assumes "find_fault en = None"
    and "find (\<lambda>x. uid x = user_id req) (users w) = Some u"
    and "avatar u \<noteq> []"
    and "\<not> startsWith (avatar u) ''http''"
    and "req_file req = Some buf"
    and "delete_outcome en (oldPublicId (avatar u)) = Some err"
    and "upload_outcome en buf ''avatars'' = Inr url"
    and "\<forall>r. save_fault en r = None"
  shows "media_log (snd (updateProfile en w req)) =
           media_log w @ [Delete (oldPublicId (avatar u)), Upload buf ''avatars'']
         \<and> (\<exists>v. fst (updateProfile en w req) = ApiSuccess 200 ''Profile updated successfully'' v
                \<and> map_of v ''avatar'' = Some (Str url))
         \<and> (\<exists>u'. find (\<lambda>x. uid x = user_id req) (users (snd (updateProfile en w req))) = Some u'
                \<and> avatar u' = url)
         \<and> updateProfile en w req = updateProfile (en\<lparr>delete_outcome := (\<lambda>i. None)\<rparr>) w req"
proof -
  let ?ld = "load (password_selected en) u"
  let ?d = "assign_name_bio req ?ld"
  let ?wa = "snd (replace_avatar en w req ?d)"
  let ?db = "?d\<lparr>d_avatar := url\<rparr>"
  let ?da = "assign_password req ?db"
  have found: "findById en w (user_id req) = Inr (Some ?ld)"
    using assms(1,2) by (rule findById_found)
  note up = updateProfile_found [OF found]
  have ra: "fst (replace_avatar en w req ?d) = Inr ?db"
    using assms(5,7) by (simp add: replace_avatar_result)
  have ident: "d_id ?da = user_id req"
    using find_uid [OF assms(2)]
    by (simp add: assign_password_def assign_name_bio_def load_def)
  have here: "find (\<lambda>x. uid x = d_id ?da) (users ?wa) = Some u"
    using assms(2) ident by (simp add: replace_avatar_users)
  have pass: "save_fault en (store en ?da u) = None"
    using assms(8) by simp
  note sv = save_users [OF here pass]
  have log: "media_log (snd (updateProfile en w req)) =
               media_log w @ [Delete (oldPublicId (avatar u)), Upload buf ''avatars'']"
    using updateProfile_log [OF found] assms(3,4,5)
    by (simp add: delete_old_avatar_log load_def)
  have resp: "\<exists>v. fst (updateProfile en w req) = ApiSuccess 200 ''Profile updated successfully'' v
                \<and> map_of v ''avatar'' = Some (Str url)"
    using up ra sv(1) by (simp add: assign_password_def)
  have "find (\<lambda>x. uid x = user_id req) (users (snd (updateProfile en w req)))
          = Some (store en ?da u)"
    using up ra sv(1,2) ident by simp
  moreover have "avatar (store en ?da u) = url"
    by (simp add: store_def assign_password_def)
  ultimately have kept: "\<exists>u'. find (\<lambda>x. uid x = user_id req)
                                (users (snd (updateProfile en w req))) = Some u'
                              \<and> avatar u' = url"
    by blast
  have same: "updateProfile en w req = updateProfile (en\<lparr>delete_outcome := (\<lambda>i. None)\<rparr>) w req"
    by (rule delete_outcome_irrelevant [symmetric])
  from log resp kept same show ?thesis by blast
qed

theorem updateProfile_delete_failure_swallowed_witness:
  "media_log (snd (updateProfile (env0\<lparr>delete_outcome := (\<lambda>i. Some (Thrown ''not found''))\<rparr>) w0
                     (req0\<lparr>req_file := Some [4, 5]\<rparr>)))
     = [Delete ''avatars/old'', Upload [4, 5] ''avatars'']
   \<and> (\<exists>v. fst (updateProfile (env0\<lparr>delete_outcome := (\<lambda>i. Some (Thrown ''not found''))\<rparr>) w0
                     (req0\<lparr>req_file := Some [4, 5]\<rparr>))
            = ApiSuccess 200 ''Profile updated successfully'' v
          \<and> map_of v ''avatar'' = Some (Str ''https://media.example/avatars/new.png''))
   \<and> (\<exists>u'. find (\<lambda>x. uid x = 1)
               (users (snd (updateProfile
                  (env0\<lparr>delete_outcome := (\<lambda>i. Some (Thrown ''not found''))\<rparr>) w0
                  (req0\<lparr>req_file := Some [4, 5]\<rparr>)))) = Some u'
          \<and> avatar u' = ''https://media.example/avatars/new.png'')"
proof -
  let ?en = "env0\<lparr>delete_outcome := (\<lambda>i. Some (Thrown ''not found''))\<rparr>"
  let ?req = "req0\<lparr>req_file := Some [4, 5]\<rparr>"
  have id: "oldPublicId (avatar alice) = ''avatars/old''"
    by (simp add: oldPublicId_def slice_last_def alice_def)
  have h1: "find_fault ?en = None" by (simp add: env0_def)
  have h2: "find (\<lambda>x. uid x = user_id ?req) (users w0) = Some alice"
    by (simp add: w0_def req0_def alice_def)
  have h3: "avatar alice \<noteq> []" by (simp add: alice_def)
  have h4: "\<not> startsWith (avatar alice) ''http''" by (simp add: alice_def startsWith_def)
  have h5: "req_file ?req = Some [4, 5]" by simp
  have h6: "delete_outcome ?en (oldPublicId (avatar alice)) = Some (Thrown ''not found'')"
    by simp
  have h7: "upload_outcome ?en [4, 5] ''avatars'' = Inr ''https://media.example/avatars/new.png''"
    by (simp add: env0_def)
  have h8: "\<forall>r. save_fault ?en r = None" by (simp add: env0_def)
  note r = updateProfile_delete_failure_swallowed [OF h1 h2 h3 h4 h5 h6 h7 h8]
  from r have c1: "media_log (snd (updateProfile ?en w0 ?req)) =
      media_log w0 @ [Delete (oldPublicId (avatar alice)), Upload [4, 5] ''avatars'']"
    by (rule conjunct1)
  from r have c2: "\<exists>v. fst (updateProfile ?en w0 ?req)
            = ApiSuccess 200 ''Profile updated successfully'' v
          \<and> map_of v ''avatar'' = Some (Str ''https://media.example/avatars/new.png'')"
    by blast
  from r have c3: "\<exists>u'. find (\<lambda>x. uid x = user_id ?req)
               (users (snd (updateProfile ?en w0 ?req))) = Some u'
          \<and> avatar u' = ''https://media.example/avatars/new.png''"
    by blast
  have l: "media_log w0 = []" by (simp add: w0_def)
  have i: "user_id ?req = 1" by (simp add: req0_def)
  show ?thesis
    using c1 c2 c3 unfolding id l i by simp
qed

text \<open>
  C4. The identifier passed to the delete call should be the last two \<open>/\<close>-separated
  segments of the stored avatar, joined by \<open>/\<close>, with the file extension stripped
  (\<open>publicId_spec\<close>). Lines 136 to 140 take \<open>.split(".")[0]\<close> instead, the text
  before the first \<open>.\<close>, so the old object is missed whenever the two segments hold
  a \<open>.\<close> before the one of the extension. For the stored avatar
  \<open>avatars/old.photo.png\<close> the handler asks for the deletion of \<open>avatars/old\<close>,
  and never for that of \<open>avatars/old.photo\<close>; for \<open>v1.2/file.png\<close> it derives
  \<open>v1\<close> where the identifier is \<open>v1.2/file\<close>.
\<close>

theorem updateProfile_deleted_identifier_first_dot:
  "avatar alice = ''avatars/old.photo.png''
   \<and> publicId_spec (avatar alice) = ''avatars/old.photo''
   \<and> media_log (snd (updateProfile env0 w0 (req0\<lparr>req_file := Some [1, 2, 3]\<rparr>)))
       = [Delete ''avatars/old'', Upload [1, 2, 3] ''avatars'']
   \<and> Delete (publicId_spec (avatar alice))
       \<notin> set (media_log (snd (updateProfile env0 w0 (req0\<lparr>req_file := Some [1, 2, 3]\<rparr>))))
   \<and> oldPublicId ''v1.2/file.png'' = ''v1''
   \<and> publicId_spec ''v1.2/file.png'' = ''v1.2/file''"
  by (simp add: updateProfile_def findById_def replace_avatar_def delete_old_avatar_def
        deleteFromCloudinary_def uploadToCloudinary_def save_def store_def load_def
        assign_name_bio_def assign_password_def or_else_def truthy_def startsWith_def
        oldPublicId_def publicId_spec_def strip_extension_def slice_last_def
        env0_def w0_def req0_def alice_def)

text \<open>
  C5. After a successful \<open>updateProfile\<close> the stored record has: the supplied name
  when it is a non-empty string, the prior name otherwise; the supplied bio whenever the
  key is present, the empty string included, the prior bio otherwise; the hash of the
  supplied password when it is a non-empty string, the prior hash otherwise.
\<close>

theorem updateProfile_patch_policy:
  assumes "find_fault en = None"
    and "find (\<lambda>x. uid x = user_id req) (users w) = Some u"
    and "fst (updateProfile en w req) = ApiSuccess c m v"
  shows "\<exists>u'. find (\<lambda>x. uid x = user_id req) (users (snd (updateProfile en w req))) = Some u'
           \<and> name u' = (case body_name req of
                          Some n \<Rightarrow> if n \<noteq> [] then n else name u
                        | None \<Rightarrow> name u)
           \<and> bio u' = (case body_bio req of Some b \<Rightarrow> b | None \<Rightarrow> bio u)
           \<and> password u' = (case body_password req of
                              Some p \<Rightarrow> if p \<noteq> [] then hash en p else password u
                            | None \<Rightarrow> password u)"
proof -
  let ?ld = "load (password_selected en) u"
  let ?d = "assign_name_bio req ?ld"
  let ?wa = "snd (replace_avatar en w req ?d)"
  have found: "findById en w (user_id req) = Inr (Some ?ld)"
    using assms(1,2) by (rule findById_found)
  note up = updateProfile_found [OF found]
  obtain d3 where d3: "fst (replace_avatar en w req ?d) = Inr d3"
    using assms(3) up by (cases "fst (replace_avatar en w req ?d)") simp_all
  let ?da = "assign_password req d3"
  obtain d5 where d5: "fst (save en ?wa ?da) = Inr d5"
    using assms(3) up d3 by (cases "fst (save en ?wa ?da)") simp_all
  have w': "snd (updateProfile en w req) = snd (save en ?wa ?da)"
    using up d3 d5 by simp
  have keep: "d_id d3 = d_id ?d" "d_name d3 = d_name ?d" "d_bio d3 = d_bio ?d"
    "d_password d3 = d_password ?d" "d_password_modified d3 = d_password_modified ?d"
    using replace_avatar_keeps [OF d3] by simp_all
  have ident: "d_id ?da = user_id req"
    using keep(1) find_uid [OF assms(2)]
    by (simp add: assign_password_def assign_name_bio_def load_def)
  have "find (\<lambda>x. uid x = d_id ?da) (users ?wa) = Some u"
    using assms(2) ident by (simp add: replace_avatar_users)
  from save_success_find [OF d5 this]
  have stored: "find (\<lambda>x. uid x = user_id req) (users (snd (updateProfile en w req)))
                  = Some (store en ?da u)"
    using w' ident by simp
  have n: "name (store en ?da u) =
             (case body_name req of Some n \<Rightarrow> if n \<noteq> [] then n else name u | None \<Rightarrow> name u)"
    using keep(2)
    by (simp add: store_def assign_password_def assign_name_bio_def load_def or_else_def
             split: option.splits)
  have b: "bio (store en ?da u) = (case body_bio req of Some b \<Rightarrow> b | None \<Rightarrow> bio u)"
    using keep(3)
    by (simp add: store_def assign_password_def assign_name_bio_def load_def
             split: option.splits)
  have p: "password (store en ?da u) =
             (case body_password req of
                Some p \<Rightarrow> if p \<noteq> [] then hash en p else password u
              | None \<Rightarrow> password u)"
    using keep(4,5)
    by (simp add: store_def assign_password_def assign_name_bio_def load_def truthy_def
             split: option.splits)
  from stored n b p show ?thesis by blast
qed

theorem updateProfile_patch_policy_witness:
  "fst (updateProfile env0 w0
          (req0\<lparr>body_name := Some [], body_bio := Some [], body_password := Some ''changed''\<rparr>))
     = ApiSuccess 200 ''Profile updated successfully''
         [(''_id'', Id 1), (''name'', Str ''Alice''), (''email'', Str ''alice@example.org''),
          (''bio'', Str []), (''avatar'', Str ''avatars/old.photo.png'')]
   \<and> (\<exists>u'. find (\<lambda>x. uid x = 1)
               (users (snd (updateProfile env0 w0
                  (req0\<lparr>body_name := Some [], body_bio := Some [],
                        body_password := Some ''changed''\<rparr>)))) = Some u'
          \<and> name u' = ''Alice'' \<and> bio u' = [] \<and> password u' = ''#changed'')"
proof -
  let ?req = "req0\<lparr>body_name := Some [], body_bio := Some [], body_password := Some ''changed''\<rparr>"
  have ok: "fst (updateProfile env0 w0 ?req)
     = ApiSuccess 200 ''Profile updated successfully''
         [(''_id'', Id 1), (''name'', Str ''Alice''), (''email'', Str ''alice@example.org''),
          (''bio'', Str []), (''avatar'', Str ''avatars/old.photo.png'')]"
    by (simp add: updateProfile_def findById_def replace_avatar_def save_def store_def
          assign_name_bio_def assign_password_def load_def or_else_def truthy_def
          env0_def w0_def req0_def alice_def)
  have f: "find_fault env0 = None" by (simp add: env0_def)
  have u: "find (\<lambda>x. uid x = user_id ?req) (users w0) = Some alice"
    by (simp add: w0_def req0_def alice_def)
  show ?thesis
    using ok updateProfile_patch_policy [OF f u ok]
    by (simp add: req0_def alice_def env0_def)
qed

text \<open>
  C6. When name, email or password is absent or empty, \<open>register\<close> answers 400 and
  leaves the world as it was: no user record is created and no upload is attempted.
\<close>

theorem register_missing_field:
  assumes "body_name req = None \<or> body_name req = Some []
           \<or> body_email req = None \<or> body_email req = Some []
           \<or> body_password req = None \<or> body_password req = Some []"
  shows "register en w req = (ApiError 400 ''Please provide all required fields'', w)"
  using assms by (auto simp: register_def truthy_def)

theorem register_missing_field_witness:
  "register env0 w0 (req0\<lparr>body_name := Some ''Bob'', body_email := Some ''bob@example.org'',
                          req_file := Some [1, 2, 3]\<rparr>)
     = (ApiError 400 ''Please provide all required fields'', w0)"
  using register_missing_field
    [of "req0\<lparr>body_name := Some ''Bob'', body_email := Some ''bob@example.org'',
              req_file := Some [1, 2, 3]\<rparr>" env0 w0]
  by (simp add: req0_def)

text \<open>
  C7. When the email of a \<open>register\<close> call belongs to a stored user, the call
  answers 400 and leaves the world as it was: no record is created and nothing is
  uploaded. With the three required fields present the answer is
  \<open>User already exists\<close>.
\<close>

theorem register_duplicate_email:
  assumes "find_fault en = None"
    and "body_email req = Some e"
    and "find (\<lambda>x. email x = e) (users w) = Some u"
  shows "snd (register en w req) = w
         \<and> (\<exists>m. fst (register en w req) = ApiError 400 m)
         \<and> ((\<exists>n. body_name req = Some n \<and> n \<noteq> []) \<and> e \<noteq> []
              \<and> (\<exists>p. body_password req = Some p \<and> p \<noteq> [])
              \<longrightarrow> fst (register en w req) = ApiError 400 ''User already exists'')"
proof (cases "\<not> truthy (body_name req) \<or> \<not> truthy (body_email req) \<or> \<not> truthy (body_password req)")
  case True
  then have "register en w req = (ApiError 400 ''Please provide all required fields'', w)"
    by (simp add: register_def)
  moreover have "\<not> ((\<exists>n. body_name req = Some n \<and> n \<noteq> []) \<and> e \<noteq> []
                     \<and> (\<exists>p. body_password req = Some p \<and> p \<noteq> []))"
    using True assms(2) by (auto simp: truthy_def)
  ultimately show ?thesis by simp
next
  case False
  then have "e \<noteq> []" using assms(2) by (simp add: truthy_def)
  then have "findOne en w (or_else (body_email req) []) (password_selected en)
               = Inr (Some (load (password_selected en) u))"
    using assms by (simp add: findOne_def or_else_def)
  with False have "register en w req = (ApiError 400 ''User already exists'', w)"
    by (simp add: register_def)
  then show ?thesis by simp
qed

theorem register_duplicate_email_witness:
  "register env0 w0 (req0\<lparr>body_name := Some ''Alice Two'',
                          body_email := Some ''alice@example.org'',
                          body_password := Some ''pw'', req_file := Some [1]\<rparr>)
     = (ApiError 400 ''User already exists'', w0)"
proof -
  let ?req = "req0\<lparr>body_name := Some ''Alice Two'', body_email := Some ''alice@example.org'',
                   body_password := Some ''pw'', req_file := Some [1]\<rparr>"
  have h1: "find_fault env0 = None" by (simp add: env0_def)
  have h2: "body_email ?req = Some ''alice@example.org''" by simp
  have h3: "find (\<lambda>x. email x = ''alice@example.org'') (users w0) = Some alice"
    by (simp add: w0_def alice_def)
  note r = register_duplicate_email [OF h1 h2 h3]
  from r have "fst (register env0 w0 ?req) = ApiError 400 ''User already exists''"
    by simp
  moreover from r have "snd (register env0 w0 ?req) = w0" by (rule conjunct1)
  ultimately show ?thesis by (simp add: prod_eq_iff)
qed

text \<open>
  C8. With a non-empty email and password, \<open>login\<close> answers 401 with the one
  message \<open>Invalid email or password\<close> both when no user has the email and when the
  password does not verify against the stored hash.
\<close>

theorem login_invalid_credentials:
  assumes "find_fault en = None"
    and "body_email req = Some e" and "e \<noteq> []"
    and "body_password req = Some p" and "p \<noteq> []"
    and "find (\<lambda>x. email x = e) (users w) = None
         \<or> (\<exists>u. find (\<lambda>x. email x = e) (users w) = Some u \<and> \<not> matchPassword en p (password u))"
  shows "login en w req = (ApiError 401 ''Invalid email or password'', w)"
proof -
  have present: "\<not> (\<not> truthy (body_email req) \<or> \<not> truthy (body_password req))"
    using assms(2-5) by (simp add: truthy_def)
  have args: "or_else (body_email req) [] = e" "or_else (body_password req) [] = p"
    using assms(2-5) by (simp_all add: or_else_def)
  from assms(6) have "\<exists>found. findOne en w e True = Inr found \<and> verified en found p = Inr None"
  proof
    assume "find (\<lambda>x. email x = e) (users w) = None"
    then show ?thesis using assms(1) by (simp add: findOne_def verified_def)
  next
    assume "\<exists>u. find (\<lambda>x. email x = e) (users w) = Some u \<and> \<not> matchPassword en p (password u)"
    then show ?thesis
      using assms(1)
      by (auto simp: findOne_def verified_def doc_matchPassword_def load_def)
  qed
  then show ?thesis
    using present args by (auto simp: login_def)
qed

theorem login_invalid_credentials_witness:
  "login env0 w0 (req0\<lparr>body_email := Some ''alice@example.org'', body_password := Some ''wrong''\<rparr>)
     = (ApiError 401 ''Invalid email or password'', w0)
   \<and> login env0 w0 (req0\<lparr>body_email := Some ''nobody@example.org'', body_password := Some ''wrong''\<rparr>)
     = (ApiError 401 ''Invalid email or password'', w0)"
  using login_invalid_credentials
      [of env0 "req0\<lparr>body_email := Some ''alice@example.org'', body_password := Some ''wrong''\<rparr>"
          "''alice@example.org''" "''wrong''" w0]
    login_invalid_credentials
      [of env0 "req0\<lparr>body_email := Some ''nobody@example.org'', body_password := Some ''wrong''\<rparr>"
          "''nobody@example.org''" "''wrong''" w0]
  by (simp add: env0_def w0_def alice_def)

text \<open>
  C9. The view returned by a successful \<open>getMe\<close> or \<open>updateProfile\<close> has exactly
  the keys the handler lists; \<open>password\<close> is not among them, whether or not the loaded
  document carries the password hash.
\<close>

theorem profile_views_exclude_password:
  "(fst (getMe en w req) = ApiSuccess c m v \<longrightarrow>
      map fst v = [''_id'', ''name'', ''email'', ''bio'', ''avatar'', ''createdAt'']
      \<and> ''password'' \<notin> fst ` set v)
   \<and> (fst (updateProfile en w req) = ApiSuccess c m v \<longrightarrow>
      map fst v = [''_id'', ''name'', ''email'', ''bio'', ''avatar'']
      \<and> ''password'' \<notin> fst ` set v)"
proof -
  have g: "fst (getMe en w req) = ApiSuccess c m v \<Longrightarrow>
             map fst v = [''_id'', ''name'', ''email'', ''bio'', ''avatar'', ''createdAt'']"
    by (auto simp: getMe_def split: sum.splits option.splits)
  have u: "fst (updateProfile en w req) = ApiSuccess c m v \<Longrightarrow>
             map fst v = [''_id'', ''name'', ''email'', ''bio'', ''avatar'']"
    by (auto simp: updateProfile_def split: sum.splits option.splits prod.splits)
  have k: "\<And>ks. map fst v = ks \<Longrightarrow> ''password'' \<notin> set ks \<Longrightarrow> ''password'' \<notin> fst ` set v"
    by (metis set_map)
  show ?thesis
    using g u k by auto
qed

theorem profile_views_exclude_password_witness:
  "d_password (load (password_selected (env0\<lparr>password_selected := True\<rparr>)) alice) = Some ''#secret''
   \<and> fst (getMe (env0\<lparr>password_selected := True\<rparr>) w0 req0)
       = ApiSuccess 200 ''User profile retrieved''
           [(''_id'', Id 1), (''name'', Str ''Alice''), (''email'', Str ''alice@example.org''),
            (''bio'', Str ''hello''), (''avatar'', Str ''avatars/old.photo.png''),
            (''createdAt'', Date 5)]
   \<and> fst (updateProfile (env0\<lparr>password_selected := True\<rparr>) w0 (req0\<lparr>body_name := Some ''Al''\<rparr>))
       = ApiSuccess 200 ''Profile updated successfully''
           [(''_id'', Id 1), (''name'', Str ''Al''), (''email'', Str ''alice@example.org''),
            (''bio'', Str ''hello''), (''avatar'', Str ''avatars/old.photo.png'')]
   \<and> ''password'' \<notin> fst ` set
           [(''_id'', Id 1), (''name'', Str ''Alice''), (''email'', Str ''alice@example.org''),
            (''bio'', Str ''hello''), (''avatar'', Str ''avatars/old.photo.png''),
            (''createdAt'', Date 5)]
   \<and> ''password'' \<notin> fst ` set
           [(''_id'', Id 1), (''name'', Str ''Al''), (''email'', Str ''alice@example.org''),
            (''bio'', Str ''hello''), (''avatar'', Str ''avatars/old.photo.png'')]"
proof -
  let ?en = "env0\<lparr>password_selected := True\<rparr>"
  let ?v1 = "[(''_id'', Id 1), (''name'', Str ''Alice''), (''email'', Str ''alice@example.org''),
            (''bio'', Str ''hello''), (''avatar'', Str ''avatars/old.photo.png''),
            (''createdAt'', Date 5)]"
  let ?v2 = "[(''_id'', Id 1), (''name'', Str ''Al''), (''email'', Str ''alice@example.org''),
            (''bio'', Str ''hello''), (''avatar'', Str ''avatars/old.photo.png'')]"
  have p: "d_password (load (password_selected ?en) alice) = Some ''#secret''"
    by (simp add: load_def alice_def)
  have g: "fst (getMe ?en w0 req0) = ApiSuccess 200 ''User profile retrieved'' ?v1"
    by (simp add: getMe_def findById_def load_def env0_def w0_def req0_def alice_def)
  have u: "fst (updateProfile ?en w0 (req0\<lparr>body_name := Some ''Al''\<rparr>))
             = ApiSuccess 200 ''Profile updated successfully'' ?v2"
    by (simp add: updateProfile_def findById_def replace_avatar_def save_def store_def load_def
          assign_name_bio_def assign_password_def or_else_def truthy_def
          env0_def w0_def req0_def alice_def)
  have a: "''password'' \<notin> fst ` set ?v1"
    using profile_views_exclude_password [of ?en w0 req0 200 "''User profile retrieved''" ?v1] g
    by blast
  have b: "''password'' \<notin> fst ` set ?v2"
    using profile_views_exclude_password
      [of ?en w0 "req0\<lparr>body_name := Some ''Al''\<rparr>" 200 "''Profile updated successfully''" ?v2] u
    by blast
  from p g u a b show ?thesis by blast
qed

text \<open>
  C10. When the identifier of the authenticated user matches no stored user, \<open>getMe\<close>
  neither succeeds nor answers 404: the TypeError raised by reading a field of the
  missing record is passed to \<open>next\<close>. \<open>updateProfile\<close> answers 404 in the same
  situation.
\<close>

theorem getMe_missing_user_forwarded:
  assumes "find_fault en = None"
    and "find (\<lambda>x. uid x = user_id req) (users w) = None"
  shows "getMe en w req = (Next (TypeError ''Cannot read properties of null''), w)
         \<and> updateProfile en w req = (ApiError 404 ''User not found'', w)"
  using findById_absent [OF assms] by (simp add: getMe_def updateProfile_def)

theorem getMe_missing_user_forwarded_witness:
  "getMe env0 w0 (req0\<lparr>user_id := 2\<rparr>) = (Next (TypeError ''Cannot read properties of null''), w0)
   \<and> updateProfile env0 w0 (req0\<lparr>user_id := 2\<rparr>) = (ApiError 404 ''User not found'', w0)"
  using getMe_missing_user_forwarded [of env0 "req0\<lparr>user_id := 2\<rparr>" w0]
  by (simp add: env0_def req0_def w0_def alice_def)

end
